theory Spec2Isabelle
  imports Complex_Main
begin

section \<open>Data model of \<^verbatim>\<open>src/src/detector.py\<close>\<close>

text \<open>
  \<^verbatim>\<open>DetectorConfig\<close>: the numeric thresholds that the motion engine reads. The two area
  thresholds are compared with \<^verbatim>\<open>cv2.contourArea\<close> results, so they are reals; the counts
  are Python integers (nothing in the source keeps them positive).
\<close>

record detector_config =
  motion_threshold :: real
  min_contour_area :: real
  max_small_contours :: int
  motion_smoothing_frames :: int
  max_rois :: int
  roi_config_file :: string

definition default_config :: detector_config where
  "default_config =
     \<lparr>motion_threshold = 800, min_contour_area = 1500, max_small_contours = 50,
      motion_smoothing_frames = 3, max_rois = 4, roi_config_file = ''config/rois.json''\<rparr>"

text \<open>
  An ROI is the dictionary built in \<^verbatim>\<open>add_roi\<close> (keys \<^verbatim>\<open>id\<close>, \<^verbatim>\<open>coords\<close>,
  \<^verbatim>\<open>motion_detected\<close>, \<^verbatim>\<open>last_motion_time\<close>). \<^verbatim>\<open>coords\<close> is a Python list: \<^verbatim>\<open>add_roi\<close>
  always stores four integers, \<^verbatim>\<open>load_rois\<close> stores whatever the file holds, so the
  length is not fixed by the type.
\<close>

record roi =
  roi_id :: int
  coords :: "int list"
  motion_detected :: bool
  last_motion_time :: "real option"

text \<open>
  The value of \<^verbatim>\<open>self.rois\<close>. \<^verbatim>\<open>__init__\<close>, \<^verbatim>\<open>add_roi\<close>, \<^verbatim>\<open>delete_roi\<close> and
  \<^verbatim>\<open>clear_rois\<close> keep it a list of ROIs, but \<^verbatim>\<open>load_rois\<close> binds it to whatever
  \<^verbatim>\<open>json.load\<close> returns: a list, \<^verbatim>\<open>None\<close>, a boolean, a number, a string or a
  dictionary. The members of a dictionary are never read by the detector; they are kept
  so that the value can be written back. A JSON array is taken to be an array of ROI
  records.
\<close>

datatype json =
    Json_null
  | Json_bool bool
  | Json_number real
  | Json_string string
  | Json_array "json list"
  | Json_object "(string \<times> json) list"

datatype rois_value =
    Roi_list "roi list"
  | Null_value
  | Bool_value bool
  | Number_value real
  | String_value string
  | Object_value "(string \<times> json) list"

text \<open>
  The fields of \<^verbatim>\<open>MotionDetector\<close> that the ROI store and the frame pipeline read and
  write. \<^verbatim>\<open>motion_history\<close> is the dictionary from ROI id to the list of raw decisions.
\<close>

record detector =
  config :: detector_config
  rois :: rois_value
  motion_history :: "int \<rightharpoonup> bool list"
  rain_detection_active :: bool

text \<open>Exceptions that the modelled statements can raise.\<close>

datatype exn = OSError | JSONDecodeError | ValueError | TypeError | AttributeError

section \<open>Python operations on the stored value\<close>

text \<open>
  \<^verbatim>\<open>len(self.rois)\<close>: \<^verbatim>\<open>None\<close>, booleans and numbers have no length. The pairs of an
  \<^verbatim>\<open>Object_value\<close> are the items of the dictionary, one per key.
\<close>

definition py_len :: "rois_value \<Rightarrow> exn + nat" where
  "py_len V =
     (case V of
        Roi_list rs \<Rightarrow> Inr (length rs)
      | String_value t \<Rightarrow> Inr (length t)
      | Object_value kvs \<Rightarrow> Inr (length kvs)
      | _ \<Rightarrow> Inl TypeError)"

text \<open>The truth value of \<^verbatim>\<open>self.rois\<close> in \<^verbatim>\<open>if self.rois\<close> and \<^verbatim>\<open>if not self.rois\<close>.\<close>

definition py_truthy :: "rois_value \<Rightarrow> bool" where
  "py_truthy V =
     (case V of
        Roi_list rs \<Rightarrow> rs \<noteq> []
      | Null_value \<Rightarrow> False
      | Bool_value b \<Rightarrow> b
      | Number_value x \<Rightarrow> x \<noteq> 0
      | String_value t \<Rightarrow> t \<noteq> []
      | Object_value kvs \<Rightarrow> kvs \<noteq> [])"

text \<open>\<^verbatim>\<open>max(xs, default=d)\<close>: the default is used only for an empty list.\<close>

definition py_max_default :: "int list \<Rightarrow> int \<Rightarrow> int" where
  "py_max_default xs d = (case xs of [] \<Rightarrow> d | y # ys \<Rightarrow> fold max ys y)"

section \<open>ROI store\<close>

text \<open>
  The \<^verbatim>\<open>try\<close> block of \<^verbatim>\<open>add_roi\<close> (lines 146-162), with integer arguments. On a list
  nothing raises. On another value \<^verbatim>\<open>len\<close> may raise; past the capacity check,
  iterating a non-empty string or dictionary yields strings, on which \<^verbatim>\<open>roi['id']\<close>
  raises \<^verbatim>\<open>TypeError\<close>, and an empty one has no \<^verbatim>\<open>append\<close>. The store is written only
  by the final \<^verbatim>\<open>append\<close>.
\<close>

definition add_roi_body ::
  "detector \<Rightarrow> int \<Rightarrow> int \<Rightarrow> int \<Rightarrow> int \<Rightarrow> exn + (bool \<times> detector)" where
  "add_roi_body s x1 y1 x2 y2 =
     (case py_len (rois s) of
        Inl e \<Rightarrow> Inl e
      | Inr n \<Rightarrow>
          if int n \<ge> max_rois (config s) then Inr (False, s)
          else
            (case rois s of
               Roi_list rs \<Rightarrow>
                 let new_id = py_max_default (map roi_id rs) 0 + 1;
                     r = \<lparr>roi_id = new_id, coords = [x1, y1, x2, y2],
                          motion_detected = False, last_motion_time = None\<rparr>
                 in Inr (True, s\<lparr>rois := Roi_list (rs @ [r])\<rparr>)
             | _ \<Rightarrow> if n = 0 then Inl AttributeError else Inl TypeError))"

text \<open>\<^verbatim>\<open>add_roi\<close>: \<^verbatim>\<open>except Exception\<close> turns every raise of the block into \<^verbatim>\<open>False\<close>.\<close>

definition add_roi :: "detector \<Rightarrow> int \<Rightarrow> int \<Rightarrow> int \<Rightarrow> int \<Rightarrow> bool \<times> detector" where
  "add_roi s x1 y1 x2 y2 =
     (case add_roi_body s x1 y1 x2 y2 of
        Inl e \<Rightarrow> (False, s)
      | Inr r \<Rightarrow> r)"

text \<open>The loop of \<^verbatim>\<open>delete_roi\<close>: drop the first ROI whose id matches, if there is one.\<close>

fun delete_first :: "int \<Rightarrow> roi list \<Rightarrow> roi list option" where
  "delete_first rid [] = None"
| "delete_first rid (r # rs) =
     (if roi_id r = rid then Some rs else map_option ((#) r) (delete_first rid rs))"

text \<open>
  The \<^verbatim>\<open>try\<close> block of \<^verbatim>\<open>delete_roi\<close> (lines 171-178). \<^verbatim>\<open>enumerate\<close> raises on a
  value that cannot be iterated; the first element of a non-empty string or dictionary
  makes \<^verbatim>\<open>roi['id']\<close> raise.
\<close>

definition delete_roi_body :: "detector \<Rightarrow> int \<Rightarrow> exn + (bool \<times> detector)" where
  "delete_roi_body s rid =
     (case rois s of
        Roi_list rs \<Rightarrow>
          (case delete_first rid rs of
             None \<Rightarrow> Inr (False, s)
           | Some rs' \<Rightarrow>
               Inr (True, s\<lparr>rois := Roi_list rs',
                             motion_history := (motion_history s)(rid := None)\<rparr>))
      | _ \<Rightarrow>
          (case py_len (rois s) of
             Inl e \<Rightarrow> Inl e
           | Inr n \<Rightarrow> if n = 0 then Inr (False, s) else Inl TypeError))"

definition delete_roi :: "detector \<Rightarrow> int \<Rightarrow> bool \<times> detector" where
  "delete_roi s rid =
     (case delete_roi_body s rid of
        Inl e \<Rightarrow> (False, s)
      | Inr r \<Rightarrow> r)"

text \<open>
  \<^verbatim>\<open>clear_rois\<close> has no \<^verbatim>\<open>try\<close>: \<^verbatim>\<open>self.rois.clear()\<close> exists for lists and
  dictionaries only, and a raise leaves the history as it is.
\<close>

definition clear_rois :: "detector \<Rightarrow> (exn \<times> detector) + detector" where
  "clear_rois s =
     (case rois s of
        Roi_list rs \<Rightarrow> Inr (s\<lparr>rois := Roi_list [], motion_history := Map.empty\<rparr>)
      | Object_value kvs \<Rightarrow> Inr (s\<lparr>rois := Object_value [], motion_history := Map.empty\<rparr>)
      | _ \<Rightarrow> Inl (AttributeError, s))"

text \<open>A run of \<^verbatim>\<open>add_roi\<close> calls, one per rectangle, whatever each call returns.\<close>

fun add_all :: "detector \<Rightarrow> (int \<times> int \<times> int \<times> int) list \<Rightarrow> detector" where
  "add_all s [] = s"
| "add_all s ((x1, y1, x2, y2) # cs) = add_all (snd (add_roi s x1 y1 x2 y2)) cs"

section \<open>Persistence\<close>

text \<open>
  The file system as the two persistence methods see it. A file either parses as JSON
  (\<^verbatim>\<open>json.load\<close> returns the value) or does not parse (\<^verbatim>\<open>json.load\<close> raises). The four
  predicates say where the environment makes a system call fail: creating the parent
  directory, opening for writing, writing, opening for reading.
\<close>

datatype file_content = Unparsable | Document rois_value

record filesystem =
  files :: "string \<rightharpoonup> file_content"
  mkdir_fails :: "string \<Rightarrow> bool"
  open_write_fails :: "string \<Rightarrow> bool"
  write_fails :: "string \<Rightarrow> bool"
  open_read_fails :: "string \<Rightarrow> bool"

text \<open>\<^verbatim>\<open>filename or self.config.roi_config_file\<close>: \<^verbatim>\<open>None\<close> and the empty string are falsy.\<close>

definition resolve_filename :: "detector \<Rightarrow> string option \<Rightarrow> string" where
  "resolve_filename s filename =
     (case filename of
        None \<Rightarrow> roi_config_file (config s)
      | Some f \<Rightarrow> if f = [] then roi_config_file (config s) else f)"

text \<open>
  The \<^verbatim>\<open>try\<close> block of \<^verbatim>\<open>save_rois\<close> (lines 192-199). \<^verbatim>\<open>open(filename, 'w')\<close> truncates
  the file, so a write that fails leaves content that no longer parses.
\<close>

definition save_rois_body ::
  "detector \<Rightarrow> filesystem \<Rightarrow> string option \<Rightarrow> (exn \<times> filesystem) + filesystem" where
  "save_rois_body s fs filename =
     (let p = resolve_filename s filename in
      if mkdir_fails fs p then Inl (OSError, fs)
      else if open_write_fails fs p then Inl (OSError, fs)
      else if write_fails fs p then Inl (OSError, fs\<lparr>files := (files fs)(p \<mapsto> Unparsable)\<rparr>)
      else Inr (fs\<lparr>files := (files fs)(p \<mapsto> Document (rois s))\<rparr>))"

text \<open>\<^verbatim>\<open>save_rois\<close>: \<^verbatim>\<open>except Exception\<close> turns every raise of the block into \<^verbatim>\<open>False\<close>.\<close>

definition save_rois :: "detector \<Rightarrow> filesystem \<Rightarrow> string option \<Rightarrow> bool \<times> filesystem" where
  "save_rois s fs filename =
     (case save_rois_body s fs filename of
        Inl (e, fs') \<Rightarrow> (False, fs')
      | Inr fs' \<Rightarrow> (True, fs'))"

text \<open>
  The \<^verbatim>\<open>try\<close> block of \<^verbatim>\<open>load_rois\<close> (lines 208-218). Line 215 binds \<^verbatim>\<open>self.rois\<close> as
  soon as \<^verbatim>\<open>json.load\<close> has returned; line 217 then takes \<^verbatim>\<open>len(self.rois)\<close> for the
  log message, which raises when the value has no length. An exception carries the
  detector as it is when the block is left.
\<close>

definition load_rois_body ::
  "detector \<Rightarrow> filesystem \<Rightarrow> string option \<Rightarrow> (exn \<times> detector) + (bool \<times> detector)" where
  "load_rois_body s fs filename =
     (let p = resolve_filename s filename in
      case files fs p of
        None \<Rightarrow> Inr (False, s)
      | Some c \<Rightarrow>
          if open_read_fails fs p then Inl (OSError, s)
          else (case c of
                  Unparsable \<Rightarrow> Inl (JSONDecodeError, s)
                | Document V \<Rightarrow>
                    (case py_len V of
                       Inl e \<Rightarrow> Inl (e, s\<lparr>rois := V\<rparr>)
                     | Inr n \<Rightarrow> Inr (True, s\<lparr>rois := V\<rparr>))))"

text \<open>\<^verbatim>\<open>load_rois\<close>: the handler returns \<^verbatim>\<open>False\<close> and undoes nothing.\<close>

definition load_rois :: "detector \<Rightarrow> filesystem \<Rightarrow> string option \<Rightarrow> bool \<times> detector" where
  "load_rois s fs filename =
     (case load_rois_body s fs filename of
        Inl (e, s') \<Rightarrow> (False, s')
      | Inr r \<Rightarrow> r)"

text \<open>\<^verbatim>\<open>MotionDetector.__init__\<close>: empty store, then the automatic \<^verbatim>\<open>load_rois()\<close>.\<close>

definition new_detector :: "detector_config \<Rightarrow> filesystem \<Rightarrow> detector" where
  "new_detector cfg fs =
     snd (load_rois \<lparr>config = cfg, rois = Roi_list [], motion_history = Map.empty,
                     rain_detection_active = False\<rparr> fs None)"

section \<open>Frame pipeline\<close>

text \<open>
  What OpenCV hands to the code for one frame. The foreground mask (background
  subtraction and morphology, lines 229-239) is computed by the library; the code only
  takes its contours. \<^verbatim>\<open>mask_contour_areas\<close> lists \<^verbatim>\<open>cv2.contourArea\<close> of the external
  contours of the whole mask; \<^verbatim>\<open>crop_contour_areas (r0, r1) (c0, c1)\<close> lists them for the
  sub-mask of rows \<^verbatim>\<open>r0..r1-1\<close> and columns \<^verbatim>\<open>c0..c1-1\<close>. \<^verbatim>\<open>clock k\<close> is the reading of
  \<^verbatim>\<open>time.time()\<close> taken while the ROI at position \<^verbatim>\<open>k\<close> of the list is processed.
\<close>

record vision =
  mask_rows :: nat
  mask_cols :: nat
  mask_contour_areas :: "real list"
  crop_contour_areas :: "nat \<times> nat \<Rightarrow> nat \<times> nat \<Rightarrow> real list"
  clock :: "nat \<Rightarrow> real"

text \<open>
  One bound of a Python slice with step 1 over an axis of length \<^verbatim>\<open>n\<close>: a negative bound
  counts from the end, and the result is clipped to \<^verbatim>\<open>0..n\<close>.
\<close>

definition slice_bound :: "nat \<Rightarrow> int \<Rightarrow> nat" where
  "slice_bound n i =
     (if i < 0 then (if i + int n < 0 then 0 else nat (i + int n))
      else if i \<ge> int n then n else nat i)"

definition slice_range :: "nat \<Rightarrow> int \<Rightarrow> int \<Rightarrow> nat \<times> nat" where
  "slice_range n a b = (slice_bound n a, slice_bound n b)"

text \<open>\<^verbatim>\<open>fg_mask[y1:y2, x1:x2]\<close> followed by \<^verbatim>\<open>findContours\<close> and \<^verbatim>\<open>contourArea\<close>.\<close>

definition roi_contour_areas :: "vision \<Rightarrow> int \<Rightarrow> int \<Rightarrow> int \<Rightarrow> int \<Rightarrow> real list" where
  "roi_contour_areas v x1 y1 x2 y2 =
     crop_contour_areas v (slice_range (mask_rows v) y1 y2) (slice_range (mask_cols v) x1 x2)"

text \<open>Lines 264-265: the summed area of the contours that reach \<^verbatim>\<open>min_contour_area\<close>.\<close>

definition total_area :: "detector_config \<Rightarrow> real list \<Rightarrow> real" where
  "total_area cfg areas = sum_list (filter (\<lambda>a. a \<ge> min_contour_area cfg) areas)"

definition roi_total_area :: "detector_config \<Rightarrow> vision \<Rightarrow> int \<Rightarrow> int \<Rightarrow> int \<Rightarrow> int \<Rightarrow> real" where
  "roi_total_area cfg v x1 y1 x2 y2 = total_area cfg (roi_contour_areas v x1 y1 x2 y2)"

text \<open>Lines 268-270: append the raw decision, then drop the oldest entry once.\<close>

definition push_history :: "int \<Rightarrow> bool list \<Rightarrow> bool \<Rightarrow> bool list" where
  "push_history n h b = (let h' = h @ [b] in if int (length h') > n then tl h' else h')"

text \<open>\<^verbatim>\<open>sum\<close> over a list of booleans.\<close>

definition py_sum_bools :: "bool list \<Rightarrow> int" where
  "py_sum_bools h = sum_list (map (\<lambda>b. if b then 1 else 0) h)"

text \<open>Lines 273-276.\<close>

definition consistent_motion :: "int \<Rightarrow> bool list \<Rightarrow> bool" where
  "consistent_motion n h = (int (length h) \<ge> n \<and> py_sum_bools h \<ge> 2)"

text \<open>
  The body of the loop over the ROIs (lines 252-288) for the ROI at position \<^verbatim>\<open>k\<close>.
  Unpacking \<^verbatim>\<open>roi['coords']\<close> into four names raises \<^verbatim>\<open>ValueError\<close> unless the list has
  four entries, before anything is written. Otherwise the step returns the ROI's final
  decision, the updated history dictionary and the updated ROI.
\<close>

definition roi_step ::
  "detector_config \<Rightarrow> vision \<Rightarrow> bool \<Rightarrow> nat \<Rightarrow> (int \<rightharpoonup> bool list) \<Rightarrow> roi
     \<Rightarrow> exn + (bool \<times> (int \<rightharpoonup> bool list) \<times> roi)" where
  "roi_step cfg v rain k mh r =
     (case coords r of
        [x1, y1, x2, y2] \<Rightarrow>
          let h0 = (case mh (roi_id r) of None \<Rightarrow> [] | Some h \<Rightarrow> h);
              area = roi_total_area cfg v x1 y1 x2 y2;
              h1 = push_history (motion_smoothing_frames cfg) h0 (area > motion_threshold cfg);
              md = (consistent_motion (motion_smoothing_frames cfg) h1 \<and> \<not> rain)
          in Inr (md, mh(roi_id r \<mapsto> h1),
                  r\<lparr>motion_detected := md,
                    last_motion_time := (if md then Some (clock v k) else last_motion_time r)\<rparr>)
      | _ \<Rightarrow> Inl ValueError)"

text \<open>
  The loop itself. The ROIs are mutated in place, so when a later ROI raises, the earlier
  ones keep their new flags: the error carries the list and the history as they are then.
\<close>

fun scan_rois ::
  "detector_config \<Rightarrow> vision \<Rightarrow> bool \<Rightarrow> nat \<Rightarrow> roi list \<Rightarrow> (int \<rightharpoonup> bool list) \<Rightarrow> bool
     \<Rightarrow> (exn \<times> roi list \<times> (int \<rightharpoonup> bool list)) + (bool \<times> roi list \<times> (int \<rightharpoonup> bool list))" where
  "scan_rois cfg v rain k [] mh any_motion = Inr (any_motion, [], mh)"
| "scan_rois cfg v rain k (r # rs) mh any_motion =
     (case roi_step cfg v rain k mh r of
        Inl e \<Rightarrow> Inl (e, r # rs, mh)
      | Inr (md, mh1, r1) \<Rightarrow>
          (case scan_rois cfg v rain (Suc k) rs mh1 (any_motion \<or> md) of
             Inl (e, rs', mh') \<Rightarrow> Inl (e, r1 # rs', mh')
           | Inr (b, rs', mh') \<Rightarrow> Inr (b, r1 # rs', mh')))"

text \<open>Lines 243 and 246: the rain flag of the frame.\<close>

definition rain_pattern :: "detector_config \<Rightarrow> vision \<Rightarrow> bool" where
  "rain_pattern cfg v =
     (int (length (filter (\<lambda>a. a < min_contour_area cfg) (mask_contour_areas v)))
        > max_small_contours cfg)"

text \<open>
  \<^verbatim>\<open>detect_motion_in_rois\<close> (lines 224-290). A falsy store returns at once. Otherwise the
  rain flag is stored before the loop; on a value that is not a list the loop raises
  \<^verbatim>\<open>TypeError\<close> at once (the value cannot be iterated, or its first element is a string
  and \<^verbatim>\<open>roi['id']\<close> raises).
\<close>

definition detect_motion_in_rois ::
  "vision \<Rightarrow> detector \<Rightarrow> (exn \<times> detector) + (bool \<times> detector)" where
  "detect_motion_in_rois v s =
     (if \<not> py_truthy (rois s) then Inr (False, s)
      else
        let rain = rain_pattern (config s) v in
        case rois s of
          Roi_list rs \<Rightarrow>
            (case scan_rois (config s) v rain 0 rs (motion_history s) False of
               Inl (e, rs', mh) \<Rightarrow>
                 Inl (e, s\<lparr>rois := Roi_list rs', motion_history := mh,
                           rain_detection_active := rain\<rparr>)
             | Inr (b, rs', mh) \<Rightarrow>
                 Inr (b, s\<lparr>rois := Roi_list rs', motion_history := mh,
                           rain_detection_active := rain\<rparr>))
        | _ \<Rightarrow> Inl (TypeError, s\<lparr>rain_detection_active := rain\<rparr>))"

text \<open>The dictionary returned by \<^verbatim>\<open>process_frame\<close>.\<close>

record frame_result =
  res_motion_detected :: bool
  rain_active :: bool
  active_rois :: nat

text \<open>
  Line 297: the number of ROIs whose \<^verbatim>\<open>motion_detected\<close> entry is true. A value that
  cannot be iterated raises \<^verbatim>\<open>TypeError\<close>; the elements of a non-empty string or
  dictionary are strings, which have no \<^verbatim>\<open>get\<close>.
\<close>

definition count_active :: "rois_value \<Rightarrow> exn + nat" where
  "count_active V =
     (case V of
        Roi_list rs \<Rightarrow> Inr (length (filter motion_detected rs))
      | _ \<Rightarrow>
          (case py_len V of
             Inl e \<Rightarrow> Inl e
           | Inr n \<Rightarrow> if n = 0 then Inr 0 else Inl AttributeError))"

text \<open>
  \<^verbatim>\<open>process_frame\<close> (lines 292-304): the dictionary is filled from the detector as it is
  on entry; afterwards only its \<^verbatim>\<open>motion_detected\<close> entry is assigned.
\<close>

definition process_frame ::
  "vision \<Rightarrow> detector \<Rightarrow> (exn \<times> detector) + (frame_result \<times> detector)" where
  "process_frame v s =
     (case count_active (rois s) of
        Inl e \<Rightarrow> Inl (e, s)
      | Inr n \<Rightarrow>
          let results = \<lparr>res_motion_detected = False,
                         rain_active = rain_detection_active s,
                         active_rois = n\<rparr>
          in if py_truthy (rois s) then
               (case detect_motion_in_rois v s of
                  Inl e \<Rightarrow> Inl e
                | Inr (b, s') \<Rightarrow> Inr (results\<lparr>res_motion_detected := b\<rparr>, s'))
             else Inr (results, s))"

section \<open>Sample inputs\<close>

text \<open>
  Concrete detectors, frames and file systems at which the results below are evaluated:
  an ROI covering rows and columns 50..199; a detector whose single ROI has two positive
  raw decisions behind it, and one whose window is full with a negative decision as its
  oldest entry; a 480 x 640 frame with one blob of area 2401 over rows and columns
  100..149, a frame with 51 speckles of area 10, a frame without foreground; a file
  system on which no call fails; and a file of five records (one id twice, one
  \<^verbatim>\<open>coords\<close> list of length 2).
\<close>

abbreviation window_of :: "(int \<rightharpoonup> bool list) \<Rightarrow> int \<Rightarrow> bool list" where
  "window_of mh i \<equiv> (case mh i of None \<Rightarrow> [] | Some h \<Rightarrow> h)"

abbreviation sample_roi :: "int \<Rightarrow> roi" where
  "sample_roi i \<equiv>
     \<lparr>roi_id = i, coords = [50, 50, 200, 200], motion_detected = False, last_motion_time = None\<rparr>"

abbreviation empty_detector :: detector where
  "empty_detector \<equiv>
     \<lparr>config = default_config, rois = Roi_list [], motion_history = Map.empty,
      rain_detection_active = False\<rparr>"

abbreviation primed_detector :: detector where
  "primed_detector \<equiv>
     \<lparr>config = default_config, rois = Roi_list [sample_roi 1],
      motion_history = [1 \<mapsto> [True, True]], rain_detection_active = False\<rparr>"

abbreviation full_window_detector :: detector where
  "full_window_detector \<equiv>
     \<lparr>config = default_config, rois = Roi_list [sample_roi 1],
      motion_history = [1 \<mapsto> [False, False, True]], rain_detection_active = False\<rparr>"

abbreviation blob_vision :: vision where
  "blob_vision \<equiv>
     \<lparr>mask_rows = 480, mask_cols = 640, mask_contour_areas = [2401],
      crop_contour_areas =
        (\<lambda>rr cr. if fst rr \<le> 100 \<and> 150 \<le> snd rr \<and> fst cr \<le> 100 \<and> 150 \<le> snd cr
                 then [2401] else []),
      clock = (\<lambda>k. 1000)\<rparr>"

abbreviation rain_vision :: vision where
  "rain_vision \<equiv>
     \<lparr>mask_rows = 480, mask_cols = 640, mask_contour_areas = replicate 51 10,
      crop_contour_areas = (\<lambda>rr cr. []), clock = (\<lambda>k. 1000)\<rparr>"

abbreviation still_vision :: vision where
  "still_vision \<equiv>
     \<lparr>mask_rows = 480, mask_cols = 640, mask_contour_areas = [],
      crop_contour_areas = (\<lambda>rr cr. []), clock = (\<lambda>k. 1000)\<rparr>"

abbreviation healthy_fs :: "(string \<rightharpoonup> file_content) \<Rightarrow> filesystem" where
  "healthy_fs fl \<equiv>
     \<lparr>files = fl, mkdir_fails = (\<lambda>p. False), open_write_fails = (\<lambda>p. False),
      write_fails = (\<lambda>p. False), open_read_fails = (\<lambda>p. False)\<rparr>"

abbreviation oversized_document :: "roi list" where
  "oversized_document \<equiv>
     [sample_roi 1, sample_roi 2, sample_roi 3, sample_roi 4,
      \<lparr>roi_id = 4, coords = [7, 9], motion_detected = True, last_motion_time = Some 12\<rparr>]"

abbreviation plain_roi :: "int \<Rightarrow> int \<Rightarrow> int \<Rightarrow> int \<Rightarrow> int \<Rightarrow> roi" where
  "plain_roi i x1 y1 x2 y2 \<equiv>
     \<lparr>roi_id = i, coords = [x1, y1, x2, y2], motion_detected = False, last_motion_time = None\<rparr>"

section \<open>Auxiliary facts\<close>

lemmas pipeline_defs =
  process_frame_def count_active_def py_len_def py_truthy_def detect_motion_in_rois_def
  rain_pattern_def roi_step_def roi_total_area_def total_area_def roi_contour_areas_def
  slice_range_def slice_bound_def push_history_def consistent_motion_def py_sum_bools_def
  default_config_def Let_def

lemmas store_defs =
  add_roi_def add_roi_body_def delete_roi_def delete_roi_body_def clear_rois_def py_len_def
  py_max_default_def default_config_def Let_def

lemma py_max_default_Max: "xs \<noteq> [] \<Longrightarrow> py_max_default xs d = Max (set xs)"
  by (cases xs) (simp_all add: py_max_default_def Max.set_eq_fold[symmetric])

lemma push_history_eq:
  "push_history n h b = (if n \<le> int (length h) then tl (h @ [b]) else h @ [b])"
  by (auto simp: push_history_def Let_def)

lemma py_sum_bools_count: "py_sum_bools h = int (length (filter (\<lambda>b. b) h))"
  by (induction h) (simp_all add: py_sum_bools_def)

lemma add_roi_on_list:
  "rois s = Roi_list rs \<Longrightarrow>
   add_roi s x1 y1 x2 y2 =
     (if int (length rs) \<ge> max_rois (config s) then (False, s)
      else (True, s\<lparr>rois := Roi_list (rs @ [plain_roi (py_max_default (map roi_id rs) 0 + 1)
                                                x1 y1 x2 y2])\<rparr>))"
  by (simp add: add_roi_def add_roi_body_def py_len_def Let_def)

lemma add_all_length:
  "rois s = Roi_list rs \<Longrightarrow> int (length rs) \<le> max_rois (config s) \<Longrightarrow>
   \<exists>rs'. rois (add_all s cs) = Roi_list rs' \<and> int (length rs') \<le> max_rois (config s) \<and>
         config (add_all s cs) = config s"
proof (induction s cs arbitrary: rs rule: add_all.induct)
  case (1 s)
  then show ?case by simp
next
  case (2 s x1 y1 x2 y2 cs)
  let ?t = "snd (add_roi s x1 y1 x2 y2)"
  have "\<exists>rs1. rois ?t = Roi_list rs1 \<and> int (length rs1) \<le> max_rois (config ?t) \<and>
          config ?t = config s"
    using "2.prems" by (auto simp: add_roi_on_list)
  then obtain rs1 where t: "rois ?t = Roi_list rs1" "int (length rs1) \<le> max_rois (config ?t)"
    "config ?t = config s" by blast
  from "2.IH"[OF t(1) t(2)] t(3) show ?case by simp
qed

lemma roi_step_result:
  assumes "roi_step cfg v rain k mh r = Inr (md, mh1, r1)"
  shows "roi_id r1 = roi_id r \<and> motion_detected r1 = md \<and> coords r1 = coords r \<and>
         (\<exists>x1 y1 x2 y2 h. coords r = [x1, y1, x2, y2] \<and>
            h = push_history (motion_smoothing_frames cfg) (window_of mh (roi_id r))
                  (roi_total_area cfg v x1 y1 x2 y2 > motion_threshold cfg) \<and>
            mh1 = mh(roi_id r \<mapsto> h) \<and>
            md = (consistent_motion (motion_smoothing_frames cfg) h \<and> \<not> rain))"
  using assms by (auto simp: roi_step_def Let_def split: list.splits)

lemma roi_step_returns:
  "length (coords r) = 4 \<Longrightarrow> \<exists>res. roi_step cfg v rain k mh r = Inr res"
  by (auto simp: roi_step_def Let_def split: list.splits)

lemma scan_rois_ids:
  "scan_rois cfg v rain k rs mh a = Inr (b, rs', mh') \<Longrightarrow>
   map roi_id rs' = map roi_id rs \<and> map coords rs' = map coords rs"
proof (induction rs arbitrary: k mh a b rs' mh')
  case Nil
  then show ?case by simp
next
  case (Cons r rs)
  from Cons.prems obtain md mh1 r1 b1 rs1 where
    step: "roi_step cfg v rain k mh r = Inr (md, mh1, r1)" and
    rest: "scan_rois cfg v rain (Suc k) rs mh1 (a \<or> md) = Inr (b1, rs1, mh')" and
    out: "rs' = r1 # rs1"
    by (auto split: sum.splits prod.splits)
  from roi_step_result[OF step] have "roi_id r1 = roi_id r" "coords r1 = coords r" by auto
  with Cons.IH[OF rest] out show ?case by simp
qed

lemma scan_rois_untouched:
  "scan_rois cfg v rain k rs mh a = Inr (b, rs', mh') \<Longrightarrow> i \<notin> roi_id ` set rs \<Longrightarrow> mh' i = mh i"
proof (induction rs arbitrary: k mh a b rs' mh')
  case Nil
  then show ?case by simp
next
  case (Cons r rs)
  from Cons.prems(1) obtain md mh1 r1 b1 rs1 where
    step: "roi_step cfg v rain k mh r = Inr (md, mh1, r1)" and
    rest: "scan_rois cfg v rain (Suc k) rs mh1 (a \<or> md) = Inr (b1, rs1, mh')"
    by (auto split: sum.splits prod.splits)
  from roi_step_result[OF step] obtain h where "mh1 = mh(roi_id r \<mapsto> h)" by blast
  moreover have "mh' i = mh1 i" using Cons.IH[OF rest] Cons.prems(2) by simp
  ultimately show ?case using Cons.prems(2) by simp
qed

lemma scan_rois_window:
  "scan_rois cfg v rain k rs mh a = Inr (b, rs', mh') \<Longrightarrow> distinct (map roi_id rs) \<Longrightarrow>
   r' \<in> set rs' \<Longrightarrow>
   \<exists>x1 y1 x2 y2 h. coords r' = [x1, y1, x2, y2] \<and>
      h = push_history (motion_smoothing_frames cfg) (window_of mh (roi_id r'))
            (roi_total_area cfg v x1 y1 x2 y2 > motion_threshold cfg) \<and>
      mh' (roi_id r') = Some h \<and>
      motion_detected r' = (consistent_motion (motion_smoothing_frames cfg) h \<and> \<not> rain)"
proof (induction rs arbitrary: k mh a b rs' mh')
  case Nil
  then show ?case by simp
next
  case (Cons r rs)
  from Cons.prems(1) obtain md mh1 r1 b1 rs1 where
    step: "roi_step cfg v rain k mh r = Inr (md, mh1, r1)" and
    rest: "scan_rois cfg v rain (Suc k) rs mh1 (a \<or> md) = Inr (b1, rs1, mh')" and
    out: "rs' = r1 # rs1"
    by (auto split: sum.splits prod.splits)
  from roi_step_result[OF step] obtain x1 y1 x2 y2 h where
    r1: "roi_id r1 = roi_id r" "motion_detected r1 = md" "coords r1 = coords r" and
    cs: "coords r = [x1, y1, x2, y2]" and
    h: "h = push_history (motion_smoothing_frames cfg) (window_of mh (roi_id r))
              (roi_total_area cfg v x1 y1 x2 y2 > motion_threshold cfg)" and
    mh1: "mh1 = mh(roi_id r \<mapsto> h)" and
    md: "md = (consistent_motion (motion_smoothing_frames cfg) h \<and> \<not> rain)"
    by blast
  have notin: "roi_id r \<notin> roi_id ` set rs" using Cons.prems(2) by auto
  show ?case
  proof (cases "r' = r1")
    case True
    have "mh' (roi_id r) = mh1 (roi_id r)" using scan_rois_untouched[OF rest notin] .
    then have m: "mh' (roi_id r') = Some h" using True r1 mh1 by simp
    have c: "coords r' = [x1, y1, x2, y2]" using True r1 cs by simp
    have h': "h = push_history (motion_smoothing_frames cfg) (window_of mh (roi_id r'))
              (roi_total_area cfg v x1 y1 x2 y2 > motion_threshold cfg)"
      using h True r1 by simp
    have f: "motion_detected r' = (consistent_motion (motion_smoothing_frames cfg) h \<and> \<not> rain)"
      using True r1 md by simp
    from c h' m f show ?thesis by blast
  next
    case False
    then have in1: "r' \<in> set rs1" using Cons.prems(3) out by simp
    have d: "distinct (map roi_id rs)" using Cons.prems(2) by simp
    from Cons.IH[OF rest d in1] obtain x1' y1' x2' y2' h' where
      c: "coords r' = [x1', y1', x2', y2']" and
      h': "h' = push_history (motion_smoothing_frames cfg) (window_of mh1 (roi_id r'))
              (roi_total_area cfg v x1' y1' x2' y2' > motion_threshold cfg)" and
      m: "mh' (roi_id r') = Some h'" and
      f: "motion_detected r' = (consistent_motion (motion_smoothing_frames cfg) h' \<and> \<not> rain)"
      by blast
    have "roi_id r' \<in> set (map roi_id rs1)" using in1 by simp
    then have "roi_id r' \<in> roi_id ` set rs" using scan_rois_ids[OF rest] by simp
    then have "roi_id r' \<noteq> roi_id r" using notin by auto
    then have "window_of mh1 (roi_id r') = window_of mh (roi_id r')" using mh1 by simp
    with h' have h'': "h' = push_history (motion_smoothing_frames cfg) (window_of mh (roi_id r'))
              (roi_total_area cfg v x1' y1' x2' y2' > motion_threshold cfg)"
      by simp
    from c h'' m f show ?thesis by blast
  qed
qed

lemma scan_rois_flags:
  "scan_rois cfg v rain k rs mh a = Inr (b, rs', mh') \<Longrightarrow> distinct (map roi_id rs) \<Longrightarrow>
   r' \<in> set rs' \<Longrightarrow>
   \<exists>h. mh' (roi_id r') = Some h \<and>
        motion_detected r' = (consistent_motion (motion_smoothing_frames cfg) h \<and> \<not> rain)"
  using scan_rois_window by blast

lemma scan_rois_rain:
  "scan_rois cfg v True k rs mh a = Inr (b, rs', mh') \<Longrightarrow>
   b = a \<and> (\<forall>r' \<in> set rs'. \<not> motion_detected r')"
proof (induction rs arbitrary: k mh a b rs' mh')
  case Nil
  then show ?case by simp
next
  case (Cons r rs)
  from Cons.prems(1) obtain md mh1 r1 b1 rs1 where
    step: "roi_step cfg v True k mh r = Inr (md, mh1, r1)" and
    rest: "scan_rois cfg v True (Suc k) rs mh1 (a \<or> md) = Inr (b1, rs1, mh')" and
    out: "rs' = r1 # rs1" "b = b1"
    by (auto split: sum.splits prod.splits)
  from roi_step_result[OF step] have "\<not> md" "\<not> motion_detected r1" by auto
  with Cons.IH[OF rest] out show ?case by simp
qed

lemma scan_rois_returns:
  "\<forall>r \<in> set rs. length (coords r) = 4 \<Longrightarrow>
   \<exists>b rs' mh'. scan_rois cfg v rain k rs mh a = Inr (b, rs', mh')"
proof (induction rs arbitrary: k mh a)
  case Nil
  then show ?case by simp
next
  case (Cons r rs)
  from Cons.prems have "length (coords r) = 4" by simp
  from roi_step_returns[OF this] obtain md mh1 r1 where
    step: "roi_step cfg v rain k mh r = Inr (md, mh1, r1)" by (metis prod_cases3)
  from Cons.prems have "\<forall>r \<in> set rs. length (coords r) = 4" by simp
  from Cons.IH[OF this] obtain b rs' mh' where
    "scan_rois cfg v rain (Suc k) rs mh1 (a \<or> md) = Inr (b, rs', mh')" by blast
  with step show ?case by simp
qed

lemma detect_returns:
  assumes "rois s = Roi_list rs" and "rs \<noteq> []" and "\<forall>r \<in> set rs. length (coords r) = 4"
  shows "\<exists>b rs' mh. scan_rois (config s) v (rain_pattern (config s) v) 0 rs
                      (motion_history s) False = Inr (b, rs', mh) \<and>
            detect_motion_in_rois v s =
              Inr (b, s\<lparr>rois := Roi_list rs', motion_history := mh,
                        rain_detection_active := rain_pattern (config s) v\<rparr>)"
proof -
  from scan_rois_returns[OF assms(3)] obtain b rs' mh where
    "scan_rois (config s) v (rain_pattern (config s) v) 0 rs (motion_history s) False
       = Inr (b, rs', mh)" by blast
  then show ?thesis
    using assms(1,2) by (simp add: detect_motion_in_rois_def py_truthy_def Let_def)
qed

lemma slice_bound_nonneg: "0 \<le> i \<Longrightarrow> slice_bound n i = nat (min i (int n))"
  by (auto simp: slice_bound_def min_def)

lemma slice_bound_le: "slice_bound n i \<le> n"
  by (auto simp: slice_bound_def nat_le_iff)

lemma slice_bound_beyond: "int n \<le> i \<Longrightarrow> slice_bound n i = n"
  by (simp add: slice_bound_def)

section \<open>Frame results\<close>

text \<open>
  Claim C1. For a call of \<^verbatim>\<open>process_frame\<close> with ROIs configured, \<^verbatim>\<open>rain_active\<close> should
  be the rain decision of the current frame and \<^verbatim>\<open>active_rois\<close> the number of ROIs whose
  flag is set after the frame. The code fills both entries before it runs the detection.
  Evaluated on a frame with a large blob inside the only ROI (whose window already holds
  two positive decisions) the result says motion detected with zero active ROIs, while one
  ROI is flagged afterwards; evaluated on a frame with 51 speckles the result says rain
  inactive, while the frame has just been classified as rain.
\<close>

theorem process_frame_reports_entry_state:
  "(case process_frame blob_vision primed_detector of
      Inr (res, s') \<Rightarrow>
        res_motion_detected res \<and> active_rois res = 0 \<and>
        (\<exists>rs'. rois s' = Roi_list rs' \<and> length (filter motion_detected rs') = 1)
    | Inl e \<Rightarrow> False) \<and>
   (case process_frame rain_vision primed_detector of
      Inr (res, s') \<Rightarrow> \<not> rain_active res \<and> rain_detection_active s'
    | Inl e \<Rightarrow> False)"
  by (simp add: pipeline_defs)

text \<open>
  Claim C2, as stated, fails: with an empty ROI set the result carries the stored rain
  flag, which is still set when the last frame processed with ROIs was a rain frame and
  the ROIs were cleared afterwards.
\<close>

theorem stale_rain_flag_on_empty_store:
  "(case process_frame rain_vision primed_detector of
      Inr (res, s') \<Rightarrow>
        (case clear_rois s' of
           Inr s'' \<Rightarrow>
             rois s'' = Roi_list [] \<and>
             (case process_frame still_vision s'' of
                Inr (res2, s3) \<Rightarrow> rain_active res2
              | Inl e \<Rightarrow> False)
         | Inl e \<Rightarrow> False)
    | Inl e \<Rightarrow> False)"
  by (simp add: pipeline_defs clear_rois_def)

text \<open>
  Claim C2, amended. With an empty ROI set \<^verbatim>\<open>process_frame\<close> leaves the detector as it
  is (no motion processing) and reports no motion, zero active ROIs and, as
  \<^verbatim>\<open>rain_active\<close>, the rain flag that the detector holds on entry (false for a detector
  that has not processed a frame yet).
\<close>

theorem process_frame_empty_store:
  assumes "rois s = Roi_list []"
  shows "process_frame v s =
           Inr (\<lparr>res_motion_detected = False, rain_active = rain_detection_active s,
                 active_rois = 0\<rparr>, s)"
  using assms by (simp add: process_frame_def count_active_def py_truthy_def)

theorem process_frame_empty_store_witness:
  "rois empty_detector = Roi_list [] \<and>
   process_frame blob_vision empty_detector =
     Inr (\<lparr>res_motion_detected = False, rain_active = False, active_rois = 0\<rparr>, empty_detector)"
  using process_frame_empty_store[of empty_detector blob_vision] by simp

section \<open>Temporal smoothing and the rain gate\<close>

text \<open>
  Claim C3, as stated, fails when the window size is not 2 or 3: the code compares the
  count of positive entries with the constant 2. With a window of 5 holding two positive
  entries the ROI is flagged, although 2 is below \<^verbatim>\<open>5 // 2 + 1 = 3\<close>.
\<close>

theorem smoothing_threshold_not_majority:
  "(case detect_motion_in_rois still_vision
           \<lparr>config = default_config\<lparr>motion_smoothing_frames := 5\<rparr>,
            rois = Roi_list [sample_roi 1],
            motion_history = [1 \<mapsto> [True, True, False, False]],
            rain_detection_active = False\<rparr> of
      Inr (b, s') \<Rightarrow>
        \<not> rain_detection_active s' \<and>
        (\<exists>rs'. rois s' = Roi_list rs' \<and> map motion_detected rs' = [True]) \<and>
        motion_history s' 1 = Some [True, True, False, False, False] \<and>
        \<not> (int (length (filter (\<lambda>x. x) [True, True, False, False, False]))
              \<ge> motion_smoothing_frames (config s') div 2 + 1)
    | Inl e \<Rightarrow> False)"
  by (simp add: pipeline_defs)

text \<open>
  Claim C3, amended. For a non-empty ROI list with pairwise distinct ids and four
  coordinates per ROI, the pipeline call returns and keeps the ids and the coordinates.
  Every ROI's window after the call is its window before the call (empty when the ROI had
  none) with this frame's raw decision appended, the raw decision being that the summed
  area of the ROI's contours exceeds \<^verbatim>\<open>motion_threshold\<close>, and with its oldest entry
  dropped when it already held \<^verbatim>\<open>motion_smoothing_frames\<close> entries or more. In a frame
  without rain the ROI is flagged exactly when that window holds at least
  \<^verbatim>\<open>motion_smoothing_frames\<close> entries and at least 2 of them are true. The bound 2
  equals \<^verbatim>\<open>N // 2 + 1\<close> for the default \<^verbatim>\<open>N = 3\<close> (and for \<^verbatim>\<open>N = 2\<close>) only.
\<close>

theorem smoothing_rule:
  assumes "rois s = Roi_list rs" and "rs \<noteq> []" and "distinct (map roi_id rs)"
    and "\<forall>r \<in> set rs. length (coords r) = 4"
  shows "\<exists>b s' rs'. detect_motion_in_rois v s = Inr (b, s') \<and> rois s' = Roi_list rs' \<and>
           map roi_id rs' = map roi_id rs \<and> map coords rs' = map coords rs \<and>
           (\<forall>r \<in> set rs'. \<exists>x1 y1 x2 y2 w h.
              coords r = [x1, y1, x2, y2] \<and>
              w = window_of (motion_history s) (roi_id r) \<and>
              h = (if motion_smoothing_frames (config s) \<le> int (length w)
                   then tl (w @ [motion_threshold (config s) < roi_total_area (config s) v x1 y1 x2 y2])
                   else w @ [motion_threshold (config s) < roi_total_area (config s) v x1 y1 x2 y2]) \<and>
              motion_history s' (roi_id r) = Some h \<and>
              (\<not> rain_detection_active s' \<longrightarrow>
                 (motion_detected r \<longleftrightarrow>
                    int (length h) \<ge> motion_smoothing_frames (config s) \<and>
                    int (length (filter (\<lambda>x. x) h)) \<ge> 2)))"
proof -
  from detect_returns[OF assms(1,2,4)] obtain b rs' mh where
    scan: "scan_rois (config s) v (rain_pattern (config s) v) 0 rs (motion_history s) False
             = Inr (b, rs', mh)" and
    det: "detect_motion_in_rois v s =
            Inr (b, s\<lparr>rois := Roi_list rs', motion_history := mh,
                      rain_detection_active := rain_pattern (config s) v\<rparr>)"
    by blast
  have ids: "map roi_id rs' = map roi_id rs \<and> map coords rs' = map coords rs"
    using scan_rois_ids[OF scan] .
  have win: "\<exists>x1 y1 x2 y2 w h.
              coords r = [x1, y1, x2, y2] \<and>
              w = window_of (motion_history s) (roi_id r) \<and>
              h = (if motion_smoothing_frames (config s) \<le> int (length w)
                   then tl (w @ [motion_threshold (config s) < roi_total_area (config s) v x1 y1 x2 y2])
                   else w @ [motion_threshold (config s) < roi_total_area (config s) v x1 y1 x2 y2]) \<and>
              mh (roi_id r) = Some h \<and>
              (\<not> rain_pattern (config s) v \<longrightarrow>
                 (motion_detected r \<longleftrightarrow>
                    int (length h) \<ge> motion_smoothing_frames (config s) \<and>
                    int (length (filter (\<lambda>x. x) h)) \<ge> 2))"
    if "r \<in> set rs'" for r
  proof -
    from scan_rois_window[OF scan assms(3) that] obtain x1 y1 x2 y2 h where
      c: "coords r = [x1, y1, x2, y2]" and
      h: "h = push_history (motion_smoothing_frames (config s))
                (window_of (motion_history s) (roi_id r))
                (roi_total_area (config s) v x1 y1 x2 y2 > motion_threshold (config s))" and
      m: "mh (roi_id r) = Some h" and
      f: "motion_detected r =
            (consistent_motion (motion_smoothing_frames (config s)) h \<and>
             \<not> rain_pattern (config s) v)"
      by blast
    have h': "h = (if motion_smoothing_frames (config s)
                       \<le> int (length (window_of (motion_history s) (roi_id r)))
                   then tl (window_of (motion_history s) (roi_id r) @
                            [motion_threshold (config s) < roi_total_area (config s) v x1 y1 x2 y2])
                   else window_of (motion_history s) (roi_id r) @
                        [motion_threshold (config s) < roi_total_area (config s) v x1 y1 x2 y2])"
      using h by (simp only: push_history_eq)
    have f': "\<not> rain_pattern (config s) v \<longrightarrow>
                 (motion_detected r \<longleftrightarrow>
                    int (length h) \<ge> motion_smoothing_frames (config s) \<and>
                    int (length (filter (\<lambda>x. x) h)) \<ge> 2)"
      using f by (simp add: consistent_motion_def py_sum_bools_count)
    from c h' m f' show ?thesis by blast
  qed
  then show ?thesis using det ids by simp
qed

theorem smoothing_rule_witness:
  "rois full_window_detector = Roi_list [sample_roi 1] \<and> [sample_roi 1] \<noteq> [] \<and>
   distinct (map roi_id [sample_roi 1]) \<and> length (coords (sample_roi 1)) = 4 \<and>
   (\<exists>b s' r'. detect_motion_in_rois blob_vision full_window_detector = Inr (b, s') \<and>
      rois s' = Roi_list [r'] \<and> coords r' = [50, 50, 200, 200] \<and>
      \<not> rain_detection_active s' \<and>
      roi_total_area default_config blob_vision 50 50 200 200 = 2401 \<and>
      motion_history full_window_detector 1 = Some [False, False, True] \<and>
      motion_history s' 1 = Some [False, True, True] \<and>
      motion_detected r')"
proof -
  have h1: "rois full_window_detector = Roi_list [sample_roi 1]" by simp
  have h2: "[sample_roi 1] \<noteq> []" by simp
  have h3: "distinct (map roi_id [sample_roi 1])" by simp
  have h4: "\<forall>r \<in> set [sample_roi 1]. length (coords r) = 4" by simp
  have h4': "length (coords (sample_roi 1)) = 4" by simp
  have area: "roi_total_area default_config blob_vision 50 50 200 200 = 2401"
    by (simp add: pipeline_defs)
  from smoothing_rule[OF h1 h2 h3 h4, of blob_vision] obtain b s' rs' where
    d: "detect_motion_in_rois blob_vision full_window_detector = Inr (b, s')" and
    l: "rois s' = Roi_list rs'" and
    i: "map roi_id rs' = map roi_id [sample_roi 1]" and
    c: "map coords rs' = map coords [sample_roi 1]" and
    w: "\<forall>r \<in> set rs'. \<exists>x1 y1 x2 y2 w h.
              coords r = [x1, y1, x2, y2] \<and>
              w = window_of (motion_history full_window_detector) (roi_id r) \<and>
              h = (if motion_smoothing_frames (config full_window_detector) \<le> int (length w)
                   then tl (w @ [motion_threshold (config full_window_detector)
                                   < roi_total_area (config full_window_detector) blob_vision x1 y1 x2 y2])
                   else w @ [motion_threshold (config full_window_detector)
                               < roi_total_area (config full_window_detector) blob_vision x1 y1 x2 y2]) \<and>
              motion_history s' (roi_id r) = Some h \<and>
              (\<not> rain_detection_active s' \<longrightarrow>
                 (motion_detected r \<longleftrightarrow>
                    int (length h) \<ge> motion_smoothing_frames (config full_window_detector) \<and>
                    int (length (filter (\<lambda>x. x) h)) \<ge> 2))"
    by blast
  from i obtain r' where rs': "rs' = [r']" and rid: "roi_id r' = 1"
    by (cases rs') auto
  from c rs' have cr: "coords r' = [50, 50, 200, 200]" by simp
  have nr: "\<not> rain_detection_active s'" using d by (auto simp: pipeline_defs)
  have rin: "r' \<in> set rs'" using rs' by simp
  from bspec[OF w rin] obtain x1 y1 x2 y2 w0 h where
    c4: "coords r' = [x1, y1, x2, y2]" and
    ww: "w0 = window_of (motion_history full_window_detector) (roi_id r')" and
    hh: "h = (if motion_smoothing_frames (config full_window_detector) \<le> int (length w0)
              then tl (w0 @ [motion_threshold (config full_window_detector)
                          < roi_total_area (config full_window_detector) blob_vision x1 y1 x2 y2])
              else w0 @ [motion_threshold (config full_window_detector)
                      < roi_total_area (config full_window_detector) blob_vision x1 y1 x2 y2])" and
    mm: "motion_history s' (roi_id r') = Some h" and
    ff: "\<not> rain_detection_active s' \<longrightarrow>
           (motion_detected r' \<longleftrightarrow>
              int (length h) \<ge> motion_smoothing_frames (config full_window_detector) \<and>
              int (length (filter (\<lambda>x. x) h)) \<ge> 2)"
    by blast
  from c4 cr have xs: "x1 = 50" "y1 = 50" "x2 = 200" "y2 = 200" by simp_all
  have wv: "w0 = [False, False, True]" using ww rid by simp
  have hv: "h = [False, True, True]"
    using hh wv xs area by (simp add: default_config_def)
  have m1: "motion_history s' 1 = Some [False, True, True]" using mm rid hv by simp
  have md: "motion_detected r'" using ff nr hv by (simp add: default_config_def)
  have old: "motion_history full_window_detector 1 = Some [False, False, True]" by simp
  have body: "detect_motion_in_rois blob_vision full_window_detector = Inr (b, s') \<and>
      rois s' = Roi_list [r'] \<and> coords r' = [50, 50, 200, 200] \<and>
      \<not> rain_detection_active s' \<and>
      roi_total_area default_config blob_vision 50 50 200 200 = 2401 \<and>
      motion_history full_window_detector 1 = Some [False, False, True] \<and>
      motion_history s' 1 = Some [False, True, True] \<and>
      motion_detected r'"
    using d l rs' cr nr area old m1 md by (intro conjI) simp_all
  have ex: "\<exists>b s' r'. detect_motion_in_rois blob_vision full_window_detector = Inr (b, s') \<and>
      rois s' = Roi_list [r'] \<and> coords r' = [50, 50, 200, 200] \<and>
      \<not> rain_detection_active s' \<and>
      roi_total_area default_config blob_vision 50 50 200 200 = 2401 \<and>
      motion_history full_window_detector 1 = Some [False, False, True] \<and>
      motion_history s' 1 = Some [False, True, True] \<and>
      motion_detected r'"
    by (rule exI[of _ b], rule exI[of _ s'], rule exI[of _ r'], rule body)
  from h1 h2 h3 h4' ex show ?thesis by (intro conjI)
qed

text \<open>
  Claim C5. For a non-empty ROI list with four coordinates per ROI the call returns, the
  stored rain flag is the rain decision of this frame, and when it is set the call returns
  no motion and no ROI is flagged. With pairwise distinct ids, every ROI's flag equals the
  smoothed decision over its window conjoined with the negated rain flag.
\<close>

theorem rain_gate_precedence:
  assumes "rois s = Roi_list rs" and "rs \<noteq> []" and "\<forall>r \<in> set rs. length (coords r) = 4"
  shows "\<exists>b s' rs'. detect_motion_in_rois v s = Inr (b, s') \<and> rois s' = Roi_list rs' \<and>
           rain_detection_active s' = rain_pattern (config s) v \<and>
           (rain_detection_active s' \<longrightarrow> \<not> b \<and> (\<forall>r \<in> set rs'. \<not> motion_detected r)) \<and>
           (distinct (map roi_id rs) \<longrightarrow>
              (\<forall>r \<in> set rs'. \<exists>h. motion_history s' (roi_id r) = Some h \<and>
                 motion_detected r =
                   (consistent_motion (motion_smoothing_frames (config s)) h \<and>
                    \<not> rain_detection_active s')))"
proof -
  from detect_returns[OF assms] obtain b rs' mh where
    scan: "scan_rois (config s) v (rain_pattern (config s) v) 0 rs (motion_history s) False
             = Inr (b, rs', mh)" and
    det: "detect_motion_in_rois v s =
            Inr (b, s\<lparr>rois := Roi_list rs', motion_history := mh,
                      rain_detection_active := rain_pattern (config s) v\<rparr>)"
    by blast
  have gate: "\<not> b \<and> (\<forall>r \<in> set rs'. \<not> motion_detected r)" if "rain_pattern (config s) v"
    using scan_rois_rain[of "config s" v 0 rs "motion_history s" False b rs' mh] scan that
    by simp
  have eq: "\<exists>h. mh (roi_id r) = Some h \<and>
              motion_detected r =
                (consistent_motion (motion_smoothing_frames (config s)) h \<and>
                 \<not> rain_pattern (config s) v)"
    if "distinct (map roi_id rs)" and "r \<in> set rs'" for r
    using scan_rois_flags[OF scan that] .
  show ?thesis using det gate eq by simp
qed

theorem rain_gate_precedence_witness:
  "rois primed_detector = Roi_list [sample_roi 1] \<and> [sample_roi 1] \<noteq> [] \<and>
   length (coords (sample_roi 1)) = 4 \<and>
   distinct (map roi_id [sample_roi 1]) \<and>
   rain_pattern (config primed_detector) rain_vision \<and>
   (\<exists>b s' rs'. detect_motion_in_rois rain_vision primed_detector = Inr (b, s') \<and>
      rois s' = Roi_list rs' \<and>
      rain_detection_active s' \<and> \<not> b \<and> (\<forall>r \<in> set rs'. \<not> motion_detected r) \<and>
      (\<forall>r \<in> set rs'. \<exists>h. motion_history s' (roi_id r) = Some h \<and>
         motion_detected r =
           (consistent_motion (motion_smoothing_frames (config primed_detector)) h \<and>
            \<not> rain_detection_active s')))"
proof -
  have h0: "rois primed_detector = Roi_list [sample_roi 1]" by simp
  have h1: "[sample_roi 1] \<noteq> []" by simp
  have h2: "\<forall>r \<in> set [sample_roi 1]. length (coords r) = 4" by simp
  have h2': "length (coords (sample_roi 1)) = 4" by simp
  have h3: "distinct (map roi_id [sample_roi 1])" by simp
  have h4: "rain_pattern (config primed_detector) rain_vision"
    by (simp add: rain_pattern_def default_config_def)
  from rain_gate_precedence[OF h0 h1 h2, of rain_vision] h3 h4 h0 h1 h2' show ?thesis by blast
qed

section \<open>Capacity and ids of the ROI store\<close>

text \<open>
  Claim C4. Starting from a store with at most \<^verbatim>\<open>max_rois\<close> ROIs, any sequence of
  \<^verbatim>\<open>add_roi\<close> calls leaves at most \<^verbatim>\<open>max_rois\<close> ROIs; a call on a store that holds
  \<^verbatim>\<open>max_rois\<close> ROIs returns \<^verbatim>\<open>False\<close> and leaves the detector unchanged.
\<close>

theorem add_roi_capacity:
  "(rois s = Roi_list rs \<and> int (length rs) \<le> max_rois (config s) \<longrightarrow>
      (\<exists>rs'. rois (add_all s cs) = Roi_list rs' \<and> int (length rs') \<le> max_rois (config s))) \<and>
   (rois s = Roi_list rs \<and> int (length rs) = max_rois (config s) \<longrightarrow>
      add_roi s x1 y1 x2 y2 = (False, s))"
  using add_all_length[of s rs cs] by (auto simp: add_roi_on_list)

theorem add_roi_capacity_witness:
  "rois primed_detector = Roi_list [sample_roi 1] \<and>
   int (length [sample_roi 1]) \<le> max_rois (config primed_detector) \<and>
   (\<exists>rs'. rois (add_all primed_detector
                  [(0, 0, 1, 1), (0, 0, 2, 2), (0, 0, 3, 3), (0, 0, 4, 4), (0, 0, 5, 5)])
             = Roi_list rs' \<and>
          int (length rs') \<le> max_rois (config primed_detector)) \<and>
   rois (empty_detector\<lparr>rois := Roi_list [plain_roi 1 0 0 1 1, plain_roi 2 0 0 2 2,
                                           plain_roi 3 0 0 3 3, plain_roi 4 0 0 4 4]\<rparr>)
     = Roi_list [plain_roi 1 0 0 1 1, plain_roi 2 0 0 2 2, plain_roi 3 0 0 3 3,
                 plain_roi 4 0 0 4 4] \<and>
   add_all empty_detector [(0, 0, 1, 1), (0, 0, 2, 2), (0, 0, 3, 3), (0, 0, 4, 4)]
     = empty_detector\<lparr>rois := Roi_list [plain_roi 1 0 0 1 1, plain_roi 2 0 0 2 2,
                                         plain_roi 3 0 0 3 3, plain_roi 4 0 0 4 4]\<rparr> \<and>
   int (length [plain_roi 1 0 0 1 1, plain_roi 2 0 0 2 2, plain_roi 3 0 0 3 3,
                plain_roi 4 0 0 4 4])
     = max_rois (config (empty_detector\<lparr>rois := Roi_list [plain_roi 1 0 0 1 1,
          plain_roi 2 0 0 2 2, plain_roi 3 0 0 3 3, plain_roi 4 0 0 4 4]\<rparr>)) \<and>
   add_roi (empty_detector\<lparr>rois := Roi_list [plain_roi 1 0 0 1 1, plain_roi 2 0 0 2 2,
                                              plain_roi 3 0 0 3 3, plain_roi 4 0 0 4 4]\<rparr>)
       0 0 5 5
     = (False, empty_detector\<lparr>rois := Roi_list [plain_roi 1 0 0 1 1, plain_roi 2 0 0 2 2,
                                                 plain_roi 3 0 0 3 3, plain_roi 4 0 0 4 4]\<rparr>)"
proof -
  let ?four = "[plain_roi 1 0 0 1 1, plain_roi 2 0 0 2 2, plain_roi 3 0 0 3 3,
                plain_roi 4 0 0 4 4]"
  let ?full = "empty_detector\<lparr>rois := Roi_list ?four\<rparr>"
  have a1: "rois primed_detector = Roi_list [sample_roi 1]" by simp
  have a2: "int (length [sample_roi 1]) \<le> max_rois (config primed_detector)"
    by (simp add: default_config_def)
  from add_roi_capacity[of primed_detector "[sample_roi 1]"
          "[(0, 0, 1, 1), (0, 0, 2, 2), (0, 0, 3, 3), (0, 0, 4, 4), (0, 0, 5, 5)]"] a1 a2
  have a3: "\<exists>rs'. rois (add_all primed_detector
                  [(0, 0, 1, 1), (0, 0, 2, 2), (0, 0, 3, 3), (0, 0, 4, 4), (0, 0, 5, 5)])
             = Roi_list rs' \<and>
          int (length rs') \<le> max_rois (config primed_detector)"
    by blast
  have b1: "rois ?full = Roi_list ?four" by simp
  have b2: "add_all empty_detector [(0, 0, 1, 1), (0, 0, 2, 2), (0, 0, 3, 3), (0, 0, 4, 4)]
              = ?full"
    by (simp add: store_defs)
  have b3: "int (length ?four) = max_rois (config ?full)" by (simp add: default_config_def)
  from add_roi_capacity[of ?full ?four "[]" 0 0 5 5] b1 b3
  have b4: "add_roi ?full 0 0 5 5 = (False, ?full)" by blast
  from a1 a2 a3 b1 b2 b3 b4 show ?thesis by (intro conjI)
qed

text \<open>
  Claim C6, as stated, fails in its general part: an id is issued again when the ROI that
  was deleted held the largest id. Add, add, delete id 2, add: the new ROI gets id 2.
\<close>

theorem add_roi_reuses_deleted_maximum:
  "(let s1 = snd (add_roi empty_detector 0 0 10 10);
        s2 = snd (add_roi s1 20 20 30 30);
        s3 = snd (delete_roi s2 2);
        s4 = snd (add_roi s3 40 40 50 50)
    in rois s2 = Roi_list [plain_roi 1 0 0 10 10, plain_roi 2 20 20 30 30] \<and>
       delete_roi s2 2 = (True, s3) \<and>
       rois s3 = Roi_list [plain_roi 1 0 0 10 10] \<and> fst (add_roi s3 40 40 50 50) \<and>
       rois s4 = Roi_list [plain_roi 1 0 0 10 10, plain_roi 2 40 40 50 50])"
  by (simp add: store_defs)

text \<open>
  Claim C6, amended. A successful \<^verbatim>\<open>add_roi\<close> appends an ROI with the given rectangle
  whose id is the largest id in the store plus one (1 for an empty store), hence larger
  than every id in the store at that moment; a lower id freed by a delete is not issued
  again, as in add (id 1), add (id 2), delete id 1, add (id 3).
\<close>

theorem add_roi_next_id:
  "(rois s = Roi_list rs \<and> int (length rs) < max_rois (config s) \<longrightarrow>
      (\<exists>r. add_roi s x1 y1 x2 y2 = (True, s\<lparr>rois := Roi_list (rs @ [r])\<rparr>) \<and>
           roi_id r = (if rs = [] then 0 else Max (roi_id ` set rs)) + 1 \<and>
           coords r = [x1, y1, x2, y2] \<and>
           (\<forall>q \<in> set rs. roi_id q < roi_id r))) \<and>
   (let s1 = snd (add_roi empty_detector 0 0 10 10);
        s2 = snd (add_roi s1 20 20 30 30);
        s3 = snd (delete_roi s2 1);
        s4 = snd (add_roi s3 40 40 50 50)
    in rois s1 = Roi_list [plain_roi 1 0 0 10 10] \<and>
       rois s2 = Roi_list [plain_roi 1 0 0 10 10, plain_roi 2 20 20 30 30] \<and>
       rois s3 = Roi_list [plain_roi 2 20 20 30 30] \<and>
       rois s4 = Roi_list [plain_roi 2 20 20 30 30, plain_roi 3 40 40 50 50])"
proof -
  have ex: "(let s1 = snd (add_roi empty_detector 0 0 10 10);
        s2 = snd (add_roi s1 20 20 30 30);
        s3 = snd (delete_roi s2 1);
        s4 = snd (add_roi s3 40 40 50 50)
    in rois s1 = Roi_list [plain_roi 1 0 0 10 10] \<and>
       rois s2 = Roi_list [plain_roi 1 0 0 10 10, plain_roi 2 20 20 30 30] \<and>
       rois s3 = Roi_list [plain_roi 2 20 20 30 30] \<and>
       rois s4 = Roi_list [plain_roi 2 20 20 30 30, plain_roi 3 40 40 50 50])"
    by (simp add: store_defs)
  have gen: "\<exists>r. add_roi s x1 y1 x2 y2 = (True, s\<lparr>rois := Roi_list (rs @ [r])\<rparr>) \<and>
           roi_id r = (if rs = [] then 0 else Max (roi_id ` set rs)) + 1 \<and>
           coords r = [x1, y1, x2, y2] \<and>
           (\<forall>q \<in> set rs. roi_id q < roi_id r)"
    if store: "rois s = Roi_list rs" and room: "int (length rs) < max_rois (config s)"
  proof -
    let ?n = "py_max_default (map roi_id rs) 0 + 1"
    let ?r = "plain_roi ?n x1 y1 x2 y2"
    have call: "add_roi s x1 y1 x2 y2 = (True, s\<lparr>rois := Roi_list (rs @ [?r])\<rparr>)"
      using room by (simp add: add_roi_on_list[OF store])
    have idv: "?n = (if rs = [] then 0 else Max (roi_id ` set rs)) + 1"
    proof (cases "rs = []")
      case True
      then show ?thesis by (simp add: py_max_default_def)
    next
      case False
      then show ?thesis using py_max_default_Max[of "map roi_id rs" 0] by simp
    qed
    have above: "\<forall>q \<in> set rs. roi_id q < ?n"
    proof
      fix q assume q: "q \<in> set rs"
      then have ne: "rs \<noteq> []" by auto
      have "roi_id q \<le> Max (roi_id ` set rs)" using q by simp
      then show "roi_id q < ?n" using idv ne by simp
    qed
    have "add_roi s x1 y1 x2 y2 = (True, s\<lparr>rois := Roi_list (rs @ [?r])\<rparr>) \<and>
          roi_id ?r = (if rs = [] then 0 else Max (roi_id ` set rs)) + 1 \<and>
          coords ?r = [x1, y1, x2, y2] \<and> (\<forall>q \<in> set rs. roi_id q < roi_id ?r)"
      using call idv above by simp
    then show ?thesis by (rule exI[of _ ?r])
  qed
  show ?thesis using ex gen by blast
qed

theorem add_roi_next_id_witness:
  "rois primed_detector = Roi_list [sample_roi 1] \<and>
   int (length [sample_roi 1]) < max_rois (config primed_detector) \<and>
   (\<exists>r. add_roi primed_detector 5 6 7 8 =
          (True, primed_detector\<lparr>rois := Roi_list ([sample_roi 1] @ [r])\<rparr>) \<and>
        roi_id r = 2 \<and> coords r = [5, 6, 7, 8] \<and>
        (\<forall>q \<in> set [sample_roi 1]. roi_id q < roi_id r))"
proof -
  have h0: "rois primed_detector = Roi_list [sample_roi 1]" by simp
  have h: "int (length [sample_roi 1]) < max_rois (config primed_detector)"
    by (simp add: default_config_def)
  from add_roi_next_id[of primed_detector "[sample_roi 1]" 5 6 7 8] h0 h obtain r where
    "add_roi primed_detector 5 6 7 8 =
       (True, primed_detector\<lparr>rois := Roi_list ([sample_roi 1] @ [r])\<rparr>)"
    "roi_id r = (if [sample_roi 1] = [] then 0
                 else Max (roi_id ` set [sample_roi 1])) + 1"
    "coords r = [5, 6, 7, 8]" "\<forall>q \<in> set [sample_roi 1]. roi_id q < roi_id r"
    by blast
  moreover from this(2) have "roi_id r = 2" by simp
  ultimately show ?thesis using h0 h by blast
qed

section \<open>Persistence\<close>

text \<open>
  Claim C7. When \<^verbatim>\<open>save_rois\<close> of a list of ROIs to a path succeeds and the file can be
  opened for reading, \<^verbatim>\<open>load_rois\<close> from that path on a newly constructed detector
  succeeds and yields ROIs with the same ids and coordinates in the same order. The file
  content is modelled at the level of the parsed document, that is, \<^verbatim>\<open>json.load\<close> is
  taken to return what \<^verbatim>\<open>json.dump\<close> was given.
\<close>

theorem save_load_roundtrip:
  assumes "rois s = Roi_list rs" and "p \<noteq> []" and "save_rois s fs (Some p) = (True, fs')"
    and "\<not> open_read_fails fs p"
  shows "\<exists>t rs'. load_rois (new_detector cfg fs') fs' (Some p) = (True, t) \<and>
             rois t = Roi_list rs' \<and>
             map (\<lambda>r. (roi_id r, coords r)) rs' = map (\<lambda>r. (roi_id r, coords r)) rs"
proof -
  from assms(2,3) have fs': "fs' = fs\<lparr>files := (files fs)(p \<mapsto> Document (rois s))\<rparr>"
    by (auto simp: save_rois_def save_rois_body_def resolve_filename_def Let_def
             split: if_splits)
  then have "load_rois (new_detector cfg fs') fs' (Some p)
               = (True, (new_detector cfg fs')\<lparr>rois := Roi_list rs\<rparr>)"
    using assms(1,2,4)
    by (simp add: load_rois_def load_rois_body_def resolve_filename_def py_len_def)
  then show ?thesis by simp
qed

theorem save_load_roundtrip_witness:
  "rois primed_detector = Roi_list [sample_roi 1] \<and> ''rois.json'' \<noteq> [] \<and>
   save_rois primed_detector (healthy_fs Map.empty) (Some ''rois.json'')
     = (True, healthy_fs [''rois.json'' \<mapsto> Document (Roi_list [sample_roi 1])]) \<and>
   \<not> open_read_fails (healthy_fs Map.empty) ''rois.json'' \<and>
   (\<exists>t rs'. load_rois (new_detector default_config
                     (healthy_fs [''rois.json'' \<mapsto> Document (Roi_list [sample_roi 1])]))
           (healthy_fs [''rois.json'' \<mapsto> Document (Roi_list [sample_roi 1])])
           (Some ''rois.json'')
         = (True, t) \<and>
        rois t = Roi_list rs' \<and>
        map (\<lambda>r. (roi_id r, coords r)) rs' = map (\<lambda>r. (roi_id r, coords r)) [sample_roi 1])"
proof -
  have h0: "rois primed_detector = Roi_list [sample_roi 1]" by simp
  have h1: "''rois.json'' \<noteq> []" by simp
  have h2: "save_rois primed_detector (healthy_fs Map.empty) (Some ''rois.json'')
              = (True, healthy_fs [''rois.json'' \<mapsto> Document (Roi_list [sample_roi 1])])"
    by (simp add: save_rois_def save_rois_body_def resolve_filename_def)
  have h3: "\<not> open_read_fails (healthy_fs Map.empty) ''rois.json''" by simp
  from save_load_roundtrip[OF h0 h1 h2 h3, of default_config] h0 h1 h2 h3
  show ?thesis by blast
qed

text \<open>
  Claim C9. \<^verbatim>\<open>load_rois\<close> on an absent file returns \<^verbatim>\<open>False\<close> and changes nothing; a
  failing open or an unparsable file makes \<^verbatim>\<open>load_rois\<close> return \<^verbatim>\<open>False\<close> with the
  detector unchanged; a file that parses to a value without a length (a number, a
  boolean, \<^verbatim>\<open>null\<close>) makes it return \<^verbatim>\<open>False\<close> too, with \<^verbatim>\<open>self.rois\<close> already bound to
  that value; a failing directory creation, open or write makes \<^verbatim>\<open>save_rois\<close> return
  \<^verbatim>\<open>False\<close>. Whatever the guarded block raises, the method returns \<^verbatim>\<open>False\<close>.
\<close>

theorem persistence_failures_reported:
  "(files fs (resolve_filename s f) = None \<longrightarrow> load_rois s fs f = (False, s)) \<and>
   (open_read_fails fs (resolve_filename s f) \<or>
    files fs (resolve_filename s f) = Some Unparsable \<longrightarrow> load_rois s fs f = (False, s)) \<and>
   (files fs (resolve_filename s f) = Some (Document V) \<and>
    \<not> open_read_fails fs (resolve_filename s f) \<and> py_len V = Inl e \<longrightarrow>
      load_rois s fs f = (False, s\<lparr>rois := V\<rparr>)) \<and>
   (load_rois_body s fs f = Inl (e, s') \<longrightarrow> load_rois s fs f = (False, s')) \<and>
   (mkdir_fails fs (resolve_filename s f) \<or> open_write_fails fs (resolve_filename s f) \<or>
    write_fails fs (resolve_filename s f) \<longrightarrow> \<not> fst (save_rois s fs f)) \<and>
   (save_rois_body s fs f = Inl (e, fs') \<longrightarrow> save_rois s fs f = (False, fs'))"
  by (auto simp: load_rois_def load_rois_body_def save_rois_def save_rois_body_def Let_def
           split: option.splits file_content.splits)

theorem persistence_failures_reported_witness:
  "files (healthy_fs Map.empty) (resolve_filename primed_detector None) = None \<and>
   load_rois primed_detector (healthy_fs Map.empty) None = (False, primed_detector) \<and>
   files (healthy_fs [''config/rois.json'' \<mapsto> Unparsable]) (resolve_filename primed_detector None)
     = Some Unparsable \<and>
   load_rois primed_detector (healthy_fs [''config/rois.json'' \<mapsto> Unparsable]) None
     = (False, primed_detector) \<and>
   files (healthy_fs [''config/rois.json'' \<mapsto> Document (Number_value 42)])
     (resolve_filename primed_detector None) = Some (Document (Number_value 42)) \<and>
   \<not> open_read_fails (healthy_fs [''config/rois.json'' \<mapsto> Document (Number_value 42)])
       (resolve_filename primed_detector None) \<and>
   py_len (Number_value 42) = Inl TypeError \<and>
   load_rois_body primed_detector
     (healthy_fs [''config/rois.json'' \<mapsto> Document (Number_value 42)]) None
     = Inl (TypeError, primed_detector\<lparr>rois := Number_value 42\<rparr>) \<and>
   load_rois primed_detector
     (healthy_fs [''config/rois.json'' \<mapsto> Document (Number_value 42)]) None
     = (False, primed_detector\<lparr>rois := Number_value 42\<rparr>) \<and>
   write_fails ((healthy_fs Map.empty)\<lparr>write_fails := (\<lambda>p. True)\<rparr>)
     (resolve_filename primed_detector None) \<and>
   save_rois_body primed_detector ((healthy_fs Map.empty)\<lparr>write_fails := (\<lambda>p. True)\<rparr>) None
     = Inl (OSError, (healthy_fs [''config/rois.json'' \<mapsto> Unparsable])\<lparr>write_fails := (\<lambda>p. True)\<rparr>) \<and>
   save_rois primed_detector ((healthy_fs Map.empty)\<lparr>write_fails := (\<lambda>p. True)\<rparr>) None
     = (False, (healthy_fs [''config/rois.json'' \<mapsto> Unparsable])\<lparr>write_fails := (\<lambda>p. True)\<rparr>)"
proof -
  have h1: "files (healthy_fs Map.empty) (resolve_filename primed_detector None) = None" by simp
  have h2: "files (healthy_fs [''config/rois.json'' \<mapsto> Unparsable])
              (resolve_filename primed_detector None) = Some Unparsable"
    by (simp add: resolve_filename_def default_config_def)
  have h3: "files (healthy_fs [''config/rois.json'' \<mapsto> Document (Number_value 42)])
              (resolve_filename primed_detector None) = Some (Document (Number_value 42))"
    by (simp add: resolve_filename_def default_config_def)
  have h4: "\<not> open_read_fails (healthy_fs [''config/rois.json'' \<mapsto> Document (Number_value 42)])
              (resolve_filename primed_detector None)" by simp
  have h5: "py_len (Number_value 42) = Inl TypeError" by (simp add: py_len_def)
  have h6: "load_rois_body primed_detector
              (healthy_fs [''config/rois.json'' \<mapsto> Document (Number_value 42)]) None
            = Inl (TypeError, primed_detector\<lparr>rois := Number_value 42\<rparr>)"
    by (simp add: load_rois_body_def resolve_filename_def default_config_def py_len_def)
  have h7: "write_fails ((healthy_fs Map.empty)\<lparr>write_fails := (\<lambda>p. True)\<rparr>)
              (resolve_filename primed_detector None)" by simp
  have h8: "save_rois_body primed_detector ((healthy_fs Map.empty)\<lparr>write_fails := (\<lambda>p. True)\<rparr>) None
     = Inl (OSError, (healthy_fs [''config/rois.json'' \<mapsto> Unparsable])\<lparr>write_fails := (\<lambda>p. True)\<rparr>)"
    by (simp add: save_rois_body_def resolve_filename_def default_config_def)
  from persistence_failures_reported[of "healthy_fs Map.empty" primed_detector None] h1
  have c1: "load_rois primed_detector (healthy_fs Map.empty) None = (False, primed_detector)"
    by blast
  from persistence_failures_reported[of "healthy_fs [''config/rois.json'' \<mapsto> Unparsable]"
         primed_detector None] h2
  have c2: "load_rois primed_detector (healthy_fs [''config/rois.json'' \<mapsto> Unparsable]) None
              = (False, primed_detector)"
    by blast
  from persistence_failures_reported[of
         "healthy_fs [''config/rois.json'' \<mapsto> Document (Number_value 42)]"
         primed_detector None "Number_value 42" TypeError] h3 h4 h5
  have c3: "load_rois primed_detector
              (healthy_fs [''config/rois.json'' \<mapsto> Document (Number_value 42)]) None
            = (False, primed_detector\<lparr>rois := Number_value 42\<rparr>)"
    by blast
  from persistence_failures_reported[of "(healthy_fs Map.empty)\<lparr>write_fails := (\<lambda>p. True)\<rparr>"
         primed_detector None _ OSError _
         "(healthy_fs [''config/rois.json'' \<mapsto> Unparsable])\<lparr>write_fails := (\<lambda>p. True)\<rparr>"] h8
  have c4: "save_rois primed_detector ((healthy_fs Map.empty)\<lparr>write_fails := (\<lambda>p. True)\<rparr>) None
     = (False, (healthy_fs [''config/rois.json'' \<mapsto> Unparsable])\<lparr>write_fails := (\<lambda>p. True)\<rparr>)"
    by blast
  from h1 c1 h2 c2 h3 h4 h5 h6 c3 h7 h8 c4 show ?thesis by (intro conjI)
qed

text \<open>
  Claim C10. \<^verbatim>\<open>load_rois\<close> on a readable file that parses to a list replaces the ROI
  list by the records of the file, whatever their number and shape. Loading a file of
  five records (with a repeated id and a two-entry \<^verbatim>\<open>coords\<close>) under the default
  \<^verbatim>\<open>max_rois = 4\<close> succeeds and leaves five ROIs in the store; only \<^verbatim>\<open>add_roi\<close> then
  refuses.
\<close>

theorem load_rois_unchecked:
  "(files fs (resolve_filename s f) = Some (Document (Roi_list rs)) \<and>
    \<not> open_read_fails fs (resolve_filename s f) \<longrightarrow>
      load_rois s fs f = (True, s\<lparr>rois := Roi_list rs\<rparr>)) \<and>
   (case load_rois empty_detector
           (healthy_fs [''config/rois.json'' \<mapsto> Document (Roi_list oversized_document)]) None of
      (ok, t) \<Rightarrow> ok \<and> rois t = Roi_list oversized_document \<and>
                 int (length oversized_document) > max_rois (config t) \<and>
                 fst (add_roi t 0 0 1 1) = False)"
  by (simp add: load_rois_def load_rois_body_def resolve_filename_def default_config_def
        add_roi_def add_roi_body_def py_len_def)

theorem load_rois_unchecked_witness:
  "files (healthy_fs [''config/rois.json'' \<mapsto> Document (Roi_list oversized_document)])
     (resolve_filename empty_detector None) = Some (Document (Roi_list oversized_document)) \<and>
   \<not> open_read_fails
       (healthy_fs [''config/rois.json'' \<mapsto> Document (Roi_list oversized_document)])
       (resolve_filename empty_detector None) \<and>
   load_rois empty_detector
     (healthy_fs [''config/rois.json'' \<mapsto> Document (Roi_list oversized_document)]) None
     = (True, empty_detector\<lparr>rois := Roi_list oversized_document\<rparr>)"
proof -
  have h1: "files (healthy_fs [''config/rois.json'' \<mapsto> Document (Roi_list oversized_document)])
     (resolve_filename empty_detector None) = Some (Document (Roi_list oversized_document))"
    by (simp add: resolve_filename_def default_config_def)
  have h2: "\<not> open_read_fails
       (healthy_fs [''config/rois.json'' \<mapsto> Document (Roi_list oversized_document)])
       (resolve_filename empty_detector None)" by simp
  from load_rois_unchecked[of
         "healthy_fs [''config/rois.json'' \<mapsto> Document (Roi_list oversized_document)]"
         empty_detector None oversized_document] h1 h2
  show ?thesis by blast
qed

section \<open>Rectangles outside the frame\<close>

text \<open>
  Claim C8, as stated, fails: a rectangle that leaves the frame on the right and at the
  bottom is scored on the part of it inside the frame. Both rectangles below leave the
  480 x 640 frame, contain the blob and get its area, 2401, not 0.
\<close>

theorem partly_outside_roi_has_area:
  "int (mask_cols blob_vision) < 700 \<and> int (mask_rows blob_vision) < 500 \<and>
   roi_total_area default_config blob_vision 0 0 700 500 = 2401 \<and>
   roi_total_area default_config blob_vision 50 50 700 500 = 2401 \<and>
   motion_threshold default_config < roi_total_area default_config blob_vision 50 50 700 500"
  by (simp add: pipeline_defs)

text \<open>
  Claim C8, amended, for rectangles with non-negative coordinates. The crop is the
  rectangle clipped to the frame, so a rectangle that extends beyond the right or the
  bottom edge is scored exactly as the clipped rectangle. A rectangle that starts at or
  beyond the right or the bottom edge gives an empty crop; provided the contour search
  finds nothing in an empty crop, its total area is 0 and, for a non-negative
  \<^verbatim>\<open>motion_threshold\<close>, the raw decision appended to the ROI's window is negative.
\<close>

theorem roi_crop_clipped_to_frame:
  "(0 \<le> x1 \<and> 0 \<le> y1 \<and> 0 \<le> x2 \<and> 0 \<le> y2 \<longrightarrow>
      roi_contour_areas v x1 y1 x2 y2 =
        crop_contour_areas v
          (nat (min y1 (int (mask_rows v))), nat (min y2 (int (mask_rows v))))
          (nat (min x1 (int (mask_cols v))), nat (min x2 (int (mask_cols v)))) \<and>
      roi_total_area cfg v x1 y1 x2 y2 =
        roi_total_area cfg v (min x1 (int (mask_cols v))) (min y1 (int (mask_rows v)))
          (min x2 (int (mask_cols v))) (min y2 (int (mask_rows v)))) \<and>
   (0 \<le> x1 \<and> 0 \<le> y1 \<and> 0 \<le> x2 \<and> 0 \<le> y2 \<and>
    (int (mask_cols v) \<le> x1 \<or> int (mask_rows v) \<le> y1) \<and>
    (\<forall>rr cr. snd rr \<le> fst rr \<or> snd cr \<le> fst cr \<longrightarrow> crop_contour_areas v rr cr = []) \<longrightarrow>
      roi_total_area cfg v x1 y1 x2 y2 = 0 \<and>
      (coords r = [x1, y1, x2, y2] \<and> 0 \<le> motion_threshold cfg \<longrightarrow>
         (\<exists>md r1. roi_step cfg v rain k mh r =
            Inr (md,
                 mh(roi_id r \<mapsto>
                      (if motion_smoothing_frames cfg \<le> int (length (window_of mh (roi_id r)))
                       then tl (window_of mh (roi_id r) @ [False])
                       else window_of mh (roi_id r) @ [False])),
                 r1))))"
proof -
  have a: "roi_contour_areas v x1 y1 x2 y2 =
        crop_contour_areas v
          (nat (min y1 (int (mask_rows v))), nat (min y2 (int (mask_rows v))))
          (nat (min x1 (int (mask_cols v))), nat (min x2 (int (mask_cols v))))"
    if "0 \<le> x1 \<and> 0 \<le> y1 \<and> 0 \<le> x2 \<and> 0 \<le> y2"
    using that by (simp add: roi_contour_areas_def slice_range_def slice_bound_nonneg)
  have b: "roi_total_area cfg v x1 y1 x2 y2 =
        roi_total_area cfg v (min x1 (int (mask_cols v))) (min y1 (int (mask_rows v)))
          (min x2 (int (mask_cols v))) (min y2 (int (mask_rows v)))"
    if "0 \<le> x1 \<and> 0 \<le> y1 \<and> 0 \<le> x2 \<and> 0 \<le> y2"
    using that
    by (simp add: roi_total_area_def roi_contour_areas_def slice_range_def slice_bound_nonneg)
  have c: "roi_total_area cfg v x1 y1 x2 y2 = 0"
    if n: "0 \<le> x1 \<and> 0 \<le> y1 \<and> 0 \<le> x2 \<and> 0 \<le> y2"
      and o: "int (mask_cols v) \<le> x1 \<or> int (mask_rows v) \<le> y1"
      and e: "\<forall>rr cr. snd rr \<le> fst rr \<or> snd cr \<le> fst cr \<longrightarrow> crop_contour_areas v rr cr = []"
  proof -
    have "snd (slice_range (mask_cols v) x1 x2) \<le> fst (slice_range (mask_cols v) x1 x2) \<or>
          snd (slice_range (mask_rows v) y1 y2) \<le> fst (slice_range (mask_rows v) y1 y2)"
      using o slice_bound_le[of "mask_cols v" x2] slice_bound_le[of "mask_rows v" y2]
      by (auto simp: slice_range_def slice_bound_beyond)
    with e have "crop_contour_areas v (slice_range (mask_rows v) y1 y2)
            (slice_range (mask_cols v) x1 x2) = []"
      by blast
    then show ?thesis by (simp add: roi_total_area_def roi_contour_areas_def total_area_def)
  qed
  have d: "\<exists>md r1. roi_step cfg v rain k mh r =
            Inr (md,
                 mh(roi_id r \<mapsto>
                      (if motion_smoothing_frames cfg \<le> int (length (window_of mh (roi_id r)))
                       then tl (window_of mh (roi_id r) @ [False])
                       else window_of mh (roi_id r) @ [False])),
                 r1)"
    if z: "roi_total_area cfg v x1 y1 x2 y2 = 0" and cr: "coords r = [x1, y1, x2, y2]"
      and t: "0 \<le> motion_threshold cfg"
    using z cr t by (simp add: roi_step_def Let_def push_history_eq)
  show ?thesis using a b c d by blast
qed

theorem roi_crop_clipped_to_frame_witness:
  "(0 \<le> (50::int) \<and> 0 \<le> (50::int) \<and> 0 \<le> (700::int) \<and> 0 \<le> (500::int)) \<and>
   roi_contour_areas blob_vision 50 50 700 500 = crop_contour_areas blob_vision (50, 480) (50, 640) \<and>
   roi_total_area default_config blob_vision 50 50 700 500 =
     roi_total_area default_config blob_vision 50 50 640 480 \<and>
   roi_total_area default_config blob_vision 50 50 640 480 = 2401 \<and>
   (0 \<le> (700::int) \<and> 0 \<le> (100::int) \<and> 0 \<le> (900::int) \<and> 0 \<le> (300::int)) \<and>
   (int (mask_cols blob_vision) \<le> 700 \<or> int (mask_rows blob_vision) \<le> 100) \<and>
   \<not> (\<exists>rr cr. (snd rr \<le> fst rr \<or> snd cr \<le> fst cr) \<and> crop_contour_areas blob_vision rr cr \<noteq> []) \<and>
   roi_total_area default_config blob_vision 700 100 900 300 = 0 \<and>
   coords (plain_roi 7 700 100 900 300) = [700, 100, 900, 300] \<and>
   0 \<le> motion_threshold default_config \<and>
   (\<exists>md r1. roi_step default_config blob_vision False 0 [7 \<mapsto> [True, True, True]]
              (plain_roi 7 700 100 900 300)
            = Inr (md, [7 \<mapsto> [True, True, False]], r1))"
proof -
  have n1: "0 \<le> (50::int) \<and> 0 \<le> (50::int) \<and> 0 \<le> (700::int) \<and> 0 \<le> (500::int)" by simp
  have n2: "0 \<le> (700::int) \<and> 0 \<le> (100::int) \<and> 0 \<le> (900::int) \<and> 0 \<le> (300::int)" by simp
  have o: "int (mask_cols blob_vision) \<le> 700 \<or> int (mask_rows blob_vision) \<le> 100" by simp
  have e: "\<forall>rr cr. snd rr \<le> fst rr \<or> snd cr \<le> fst cr \<longrightarrow> crop_contour_areas blob_vision rr cr = []"
    by auto
  have e': "\<not> (\<exists>rr cr. (snd rr \<le> fst rr \<or> snd cr \<le> fst cr) \<and>
                crop_contour_areas blob_vision rr cr \<noteq> [])"
    using e by blast
  have cr: "coords (plain_roi 7 700 100 900 300) = [700, 100, 900, 300]" by simp
  have t: "0 \<le> motion_threshold default_config" by (simp add: default_config_def)
  have inside: "roi_total_area default_config blob_vision 50 50 640 480 = 2401"
    by (simp add: pipeline_defs)
  from roi_crop_clipped_to_frame[of 50 50 700 500 blob_vision default_config] n1
  have p1: "roi_contour_areas blob_vision 50 50 700 500 =
              crop_contour_areas blob_vision
                (nat (min 50 (int (mask_rows blob_vision))), nat (min 500 (int (mask_rows blob_vision))))
                (nat (min 50 (int (mask_cols blob_vision))), nat (min 700 (int (mask_cols blob_vision))))"
    and p2: "roi_total_area default_config blob_vision 50 50 700 500 =
               roi_total_area default_config blob_vision
                 (min 50 (int (mask_cols blob_vision))) (min 50 (int (mask_rows blob_vision)))
                 (min 700 (int (mask_cols blob_vision))) (min 500 (int (mask_rows blob_vision)))"
    by blast+
  have q1: "roi_contour_areas blob_vision 50 50 700 500
              = crop_contour_areas blob_vision (50, 480) (50, 640)"
    using p1 by simp
  have q2: "roi_total_area default_config blob_vision 50 50 700 500 =
              roi_total_area default_config blob_vision 50 50 640 480"
    using p2 by simp
  from roi_crop_clipped_to_frame[of 700 100 900 300 blob_vision default_config
         "plain_roi 7 700 100 900 300" False 0 "[7 \<mapsto> [True, True, True]]"] n2 o e cr t
  have p3: "roi_total_area default_config blob_vision 700 100 900 300 = 0"
    and p4: "\<exists>md r1. roi_step default_config blob_vision False 0 [7 \<mapsto> [True, True, True]]
               (plain_roi 7 700 100 900 300) =
             Inr (md,
                  [7 \<mapsto> [True, True, True]](roi_id (plain_roi 7 700 100 900 300) \<mapsto>
                    (if motion_smoothing_frames default_config
                          \<le> int (length (window_of [7 \<mapsto> [True, True, True]]
                                           (roi_id (plain_roi 7 700 100 900 300))))
                     then tl (window_of [7 \<mapsto> [True, True, True]]
                                (roi_id (plain_roi 7 700 100 900 300)) @ [False])
                     else window_of [7 \<mapsto> [True, True, True]]
                            (roi_id (plain_roi 7 700 100 900 300)) @ [False])),
                  r1)"
    by blast+
  have q4: "\<exists>md r1. roi_step default_config blob_vision False 0 [7 \<mapsto> [True, True, True]]
              (plain_roi 7 700 100 900 300)
            = Inr (md, [7 \<mapsto> [True, True, False]], r1)"
    using p4 by (simp add: default_config_def)
  from n1 q1 q2 inside n2 o e' p3 cr t q4 show ?thesis
    by (intro conjI; (assumption | simp))
qed

end
